theory Spec2Isabelle
  imports Main "HOL-Library.AList" "HOL-Library.Multiset"
begin

section \<open>Data model: the documents of models/userModel.js and models/creditTransactionModel.js\<close>

text \<open>
  Document identifiers (\<open>_id\<close>, Mongo ObjectIds) are opaque; they are modelled as natural
  numbers. The credit counters are JavaScript Numbers that the service only ever adds to,
  subtracts from and compares; they are modelled as unbounded integers. Dates are
  integers (milliseconds). The user schema's \<open>timestamps: true\<close> gives every user
  document the fields \<open>createdAt\<close> and \<open>updatedAt\<close>, here \<open>user_createdAt\<close> and
  \<open>user_updatedAt\<close>. A transaction is created once and never saved again, so its
  \<open>updatedAt\<close> stays equal to its \<open>createdAt\<close>; the transaction record keeps the
  \<open>createdAt\<close> only.
\<close>

type_synonym objectId = nat

record user =
  name :: string
  email :: string
  password :: "string option"
  googleId :: "string option"
  apiKey :: "string option"
  apiCreditsUsed :: int
  apiCreditsTotal :: int
  isAdmin :: bool
  user_createdAt :: int
  user_updatedAt :: int

text \<open>
  The schema's validators, which every \<open>save\<close> runs: \<open>name\<close> and \<open>email\<close> are
  required, and \<open>password\<close> is required when \<open>!this.googleId\<close>, that is, when the
  document has no \<open>googleId\<close> or an empty one. A required string must not be empty.
\<close>

definition passes_validation :: "user \<Rightarrow> bool" where
  "passes_validation u =
     (name u \<noteq> [] \<and> email u \<noteq> [] \<and>
      (if googleId u = None \<or> googleId u = Some []
       then (case password u of Some p \<Rightarrow> p \<noteq> [] | None \<Rightarrow> False)
       else True))"

text \<open>The schema's \<open>enum: ['consume', 'refill', 'adjustment']\<close>.\<close>

datatype txType = Consume | Refill | Adjustment

record creditTransaction =
  tx_user :: objectId
  amount :: int
  tx_type :: txType
  description :: string
  endpointPath :: "string option"
  balanceAfter :: int
  createdAt :: int

text \<open>
  The store: the \<open>User\<close> collection as an association list from \<open>_id\<close> to document, and
  the \<open>CreditTransaction\<close> collection in insertion order.
\<close>

record db =
  users :: "(objectId \<times> user) list"
  transactions :: "creditTransaction list"

text \<open>
  Every call to the store is awaited inside a \<open>try\<close> block and may reject. The
  environment of one service call holds what the store and the clock decide in that call:
  \<^item> which of its store calls reject (\<open>save_fails\<close> stands for every way \<open>save\<close> can
    reject, a failed validation of the document included);
  \<^item> \<open>save_now\<close>, the clock when \<open>save\<close> runs, and \<open>now\<close>, the clock when
    \<open>create\<close> runs (the \<open>createdAt\<close> of the created transaction);
  \<^item> \<open>tie_rank\<close>, the order in which the store returns documents whose sort keys are
    equal (a sort on \<open>createdAt\<close> alone leaves that order to the store);
  \<^item> \<open>single_batch\<close>, the number of documents the store puts in one batch.
\<close>

record store_env =
  findById_fails :: bool
  save_fails :: bool
  create_fails :: bool
  find_fails :: bool
  save_now :: int
  now :: int
  tie_rank :: "creditTransaction \<Rightarrow> int"
  single_batch :: nat

definition findById :: "db \<Rightarrow> objectId \<Rightarrow> user option" where
  "findById d i = map_of (users d) i"

text \<open>
  \<open>save\<close> on a document that \<open>findById\<close> loaded writes the paths that were modified
  since. When a path was modified, the timestamps option sets \<open>updatedAt\<close> to the
  current time; a document without a modified path is not written and keeps its
  \<open>updatedAt\<close>. The pre-save hook of the schema leaves the password alone unless the
  password was modified, which no credit operation does.
\<close>

definition save :: "store_env \<Rightarrow> db \<Rightarrow> objectId \<Rightarrow> user \<Rightarrow> db" where
  "save env d i u =
     (if findById d i = Some u then d
      else d\<lparr>users := AList.update i (u\<lparr>user_updatedAt := save_now env\<rparr>) (users d)\<rparr>)"

definition create :: "db \<Rightarrow> creditTransaction \<Rightarrow> db" where
  "create d t = d\<lparr>transactions := transactions d @ [t]\<rparr>"

section \<open>Results of the service calls\<close>

text \<open>
  The message texts of services/creditService.js and routes/userRoutes.js, with the values the
  template strings interpolate as arguments:
  \<^item> \<open>InsufficientMsg need have\<close>: "Insufficient API credits. You need \<open>need\<close> credits but
    have only \<open>have\<close> remaining."
  \<^item> \<open>ErrorProcessingMsg\<close>: "Error processing API credits"
  \<^item> \<open>UserNotFoundMsg\<close>: "User not found"
  \<^item> \<open>LimitMsg m\<close>: "Cannot exceed maximum credit limit of \<open>m\<close>"
  \<^item> \<open>ErrorAddingMsg\<close>: "Error adding API credits"
  \<^item> \<open>ErrorResettingMsg\<close>: "Error resetting API credits"
  \<^item> \<open>ErrorFetchingMsg\<close>: "Error fetching credit transaction history"
  \<^item> \<open>StoreErrorMsg\<close>: the message of an error thrown by the store
\<close>

datatype message =
    InsufficientMsg int int
  | ErrorProcessingMsg
  | UserNotFoundMsg
  | LimitMsg int
  | ErrorAddingMsg
  | ErrorResettingMsg
  | ErrorFetchingMsg
  | StoreErrorMsg

text \<open>
  The objects the service returns: \<open>{success: true, ...}\<close> with the fields of each
  operation, or \<open>{success: false, message, statusCode}\<close>.
\<close>

datatype result =
    ConsumeOk (remainingCredits: int) (creditsUsed: int)
  | AddOk (totalCredits: int) (remainingCredits: int)
  | ResetOk (previousUsed: int) (currentUsed: int) (remainingCredits: int)
  | HistoryOk (history: "creditTransaction list")
  | Failure (statusCode: int) (failure_message: message)

section \<open>getEndpointCreditCost\<close>

text \<open>
  \<open>costMap\<close> is a plain object literal, so the read \<open>costMap[endpointPath]\<close> finds the
  literal's own keys and, for every other key, the members it inherits from
  \<open>Object.prototype\<close>; only a key found in neither place reads as \<open>undefined\<close>. A value
  read is therefore a number of the table (\<open>Num\<close>) or an inherited member (\<open>Builtin\<close>:
  a function, or the prototype object for \<open>__proto__\<close>), and every inherited member is
  truthy.
\<close>

datatype jsval = Num int | Builtin string

definition costMap :: "(string \<times> int) list" where
  "costMap = [(''/api/estimate-calories'', 1)]"

definition object_prototype_keys :: "string list" where
  "object_prototype_keys =
     [''constructor'', ''__defineGetter__'', ''__defineSetter__'', ''hasOwnProperty'',
      ''__lookupGetter__'', ''__lookupSetter__'', ''isPrototypeOf'',
      ''propertyIsEnumerable'', ''toString'', ''valueOf'', ''__proto__'',
      ''toLocaleString'']"

definition costMap_get :: "string \<Rightarrow> jsval option" where
  "costMap_get k =
     (case map_of costMap k of
        Some n \<Rightarrow> Some (Num n)
      | None \<Rightarrow> if k \<in> set object_prototype_keys then Some (Builtin k) else None)"

definition truthy :: "jsval \<Rightarrow> bool" where
  "truthy v = (case v of Num n \<Rightarrow> n \<noteq> 0 | Builtin _ \<Rightarrow> True)"

text \<open>\<open>return costMap[endpointPath] || 1\<close>\<close>

definition getEndpointCreditCost :: "string \<Rightarrow> jsval" where
  "getEndpointCreditCost p =
     (case costMap_get p of
        Some v \<Rightarrow> if truthy v then v else Num 1
      | None \<Rightarrow> Num 1)"

section \<open>consumeCredits\<close>

text \<open>
  \<open>consumeWithCost\<close> is the \<open>try\<close>/\<open>catch\<close> of \<open>consumeCredits\<close> with \<open>creditCost\<close>
  bound. Reading \<open>apiCreditsTotal\<close> of the \<open>null\<close> that \<open>findById\<close> gives for a missing
  user throws a TypeError, which the \<open>catch\<close> turns into the 500 result. A cost that is
  not a number compares false with \<open>remainingCredits\<close> (the comparison is with NaN), the
  \<open>+=\<close> then yields a string the Number field cannot hold, and \<open>save\<close> rejects.
\<close>

definition consumeWithCost ::
  "store_env \<Rightarrow> db \<Rightarrow> objectId \<Rightarrow> string \<Rightarrow> jsval \<Rightarrow> result \<times> db" where
  "consumeWithCost env d uid path creditCost =
     (if findById_fails env then (Failure 500 ErrorProcessingMsg, d)
      else case findById d uid of
        None \<Rightarrow> (Failure 500 ErrorProcessingMsg, d)
      | Some freshUser \<Rightarrow>
          (case creditCost of
             Builtin _ \<Rightarrow> (Failure 500 ErrorProcessingMsg, d)
           | Num c \<Rightarrow>
               let remaining = apiCreditsTotal freshUser - apiCreditsUsed freshUser in
               if remaining < c then (Failure 429 (InsufficientMsg c remaining), d)
               else
                 let freshUser' = freshUser\<lparr>apiCreditsUsed := apiCreditsUsed freshUser + c\<rparr> in
                 if save_fails env then (Failure 500 ErrorProcessingMsg, d)
                 else
                   let d1 = save env d uid freshUser' in
                   if create_fails env then (Failure 500 ErrorProcessingMsg, d1)
                   else
                     (ConsumeOk (apiCreditsTotal freshUser' - apiCreditsUsed freshUser')
                        (apiCreditsUsed freshUser'),
                      create d1
                        \<lparr>tx_user = uid, amount = - c, tx_type = Consume,
                         description = ''API request to '' @ path,
                         endpointPath = Some path,
                         balanceAfter = apiCreditsTotal freshUser' - apiCreditsUsed freshUser',
                         createdAt = now env\<rparr>)))"

definition consumeCredits :: "store_env \<Rightarrow> db \<Rightarrow> objectId \<Rightarrow> string \<Rightarrow> result \<times> db" where
  "consumeCredits env d uid path = consumeWithCost env d uid path (getEndpointCreditCost path)"

section \<open>addCredits\<close>

definition MAX_CREDITS :: int where
  "MAX_CREDITS = 1000"

definition addCredits ::
  "store_env \<Rightarrow> db \<Rightarrow> objectId \<Rightarrow> int \<Rightarrow> string \<Rightarrow> result \<times> db" where
  "addCredits env d userId amt descr =
     (if findById_fails env then (Failure 500 ErrorAddingMsg, d)
      else case findById d userId of
        None \<Rightarrow> (Failure 404 UserNotFoundMsg, d)
      | Some u \<Rightarrow>
          let newTotal = apiCreditsTotal u + amt in
          if newTotal > MAX_CREDITS then (Failure 400 (LimitMsg MAX_CREDITS), d)
          else
            let u' = u\<lparr>apiCreditsTotal := apiCreditsTotal u + amt\<rparr> in
            if save_fails env then (Failure 500 ErrorAddingMsg, d)
            else
              let d1 = save env d userId u' in
              if create_fails env then (Failure 500 ErrorAddingMsg, d1)
              else
                (AddOk (apiCreditsTotal u') (apiCreditsTotal u' - apiCreditsUsed u'),
                 create d1
                   \<lparr>tx_user = userId, amount = amt, tx_type = Refill,
                    description = descr, endpointPath = None,
                    balanceAfter = apiCreditsTotal u' - apiCreditsUsed u',
                    createdAt = now env\<rparr>))"

section \<open>resetCredits\<close>

definition resetCredits :: "store_env \<Rightarrow> db \<Rightarrow> objectId \<Rightarrow> result \<times> db" where
  "resetCredits env d userId =
     (if findById_fails env then (Failure 500 ErrorResettingMsg, d)
      else case findById d userId of
        None \<Rightarrow> (Failure 404 UserNotFoundMsg, d)
      | Some u \<Rightarrow>
          let prev = apiCreditsUsed u;
              u' = u\<lparr>apiCreditsUsed := 0\<rparr> in
          if save_fails env then (Failure 500 ErrorResettingMsg, d)
          else
            let d1 = save env d userId u' in
            if create_fails env then (Failure 500 ErrorResettingMsg, d1)
            else
              (ResetOk prev 0 (apiCreditsTotal u'),
               create d1
                 \<lparr>tx_user = userId, amount = prev, tx_type = Adjustment,
                  description = ''Admin reset of used credits'', endpointPath = None,
                  balanceAfter = apiCreditsTotal u',
                  createdAt = now env\<rparr>))"

section \<open>getTransactionHistory\<close>

text \<open>
  \<open>CreditTransaction.find({ user: userId }).sort({ createdAt: -1 }).limit(limit)\<close>.
  The query itself runs in the store (Mongoose and MongoDB), whose code is not part of
  this repository; the three definitions below follow the store's documented behaviour.
  \<^item> The sort is by descending \<open>createdAt\<close>; among equal \<open>createdAt\<close> the order is the
    store's (\<open>tie_rank\<close>).
  \<^item> A positive limit returns at most that many documents. A limit of 0 means "no
    limit": all documents are returned. A negative limit \<open>- k\<close> asks for at most \<open>k\<close>
    documents in a single batch.
\<close>

definition sort_createdAt_desc ::
  "(creditTransaction \<Rightarrow> int) \<Rightarrow> creditTransaction list \<Rightarrow> creditTransaction list" where
  "sort_createdAt_desc rank ts = sort_key (\<lambda>t. - createdAt t) (sort_key rank ts)"

definition cursor_limit :: "nat \<Rightarrow> int \<Rightarrow> 'a list \<Rightarrow> 'a list" where
  "cursor_limit batch n xs =
     (if n = 0 then xs
      else if 0 < n then take (nat n) xs
      else take (min (nat (- n)) batch) xs)"

text \<open>
  The parameter default \<open>limit = 20\<close> applies when the caller passes no limit
  (\<open>None\<close>). The call reads only: the store is returned as it was.
\<close>

definition getTransactionHistory ::
  "store_env \<Rightarrow> db \<Rightarrow> objectId \<Rightarrow> int option \<Rightarrow> result \<times> db" where
  "getTransactionHistory env d userId lim =
     (if find_fails env then (Failure 500 ErrorFetchingMsg, d)
      else
        (HistoryOk
           (cursor_limit (single_batch env) (case lim of None \<Rightarrow> 20 | Some l \<Rightarrow> l)
              (sort_createdAt_desc (tie_rank env)
                 (filter (\<lambda>t. tx_user t = userId) (transactions d)))),
         d))"

text \<open>
  \<open>GET /api/credits/:userId/history\<close> (routes/creditRoutes.js) computes the limit as
  \<open>parseInt(req.query.limit) || 50\<close> and passes it on: \<open>NaN\<close> (here \<open>None\<close>) and 0
  become 50, every other integer, a negative one included, is passed as it is. The route
  answers with the service's result.
\<close>

definition historyRouteLimit :: "int option \<Rightarrow> int" where
  "historyRouteLimit parsed = (case parsed of None \<Rightarrow> 50 | Some n \<Rightarrow> if n = 0 then 50 else n)"

definition historyRoute :: "store_env \<Rightarrow> db \<Rightarrow> objectId \<Rightarrow> int option \<Rightarrow> result \<times> db" where
  "historyRoute env d userId parsed =
     getTransactionHistory env d userId (Some (historyRouteLimit parsed))"

section \<open>POST /api/users/:id/reset-count (routes/userRoutes.js)\<close>

text \<open>
  The admin route of userRoutes.js that resets \<open>apiCreditsUsed\<close> itself, without the
  service. Its \<open>catch\<close> answers every thrown error, the "User not found" one included,
  with status 400.
\<close>

datatype resetCountResponse =
    ResetCountOk (rc_previousUsed: int) (rc_currentUsed: int) (rc_apiCreditsTotal: int)
      (rc_apiCreditsRemaining: int)
  | ResetCountError (rc_status: int) (rc_message: message)

definition resetCountRoute :: "store_env \<Rightarrow> db \<Rightarrow> objectId \<Rightarrow> resetCountResponse \<times> db" where
  "resetCountRoute env d uid =
     (if findById_fails env then (ResetCountError 400 StoreErrorMsg, d)
      else case findById d uid of
        None \<Rightarrow> (ResetCountError 400 UserNotFoundMsg, d)
      | Some u \<Rightarrow>
          let prev = apiCreditsUsed u;
              u' = u\<lparr>apiCreditsUsed := 0\<rparr> in
          if save_fails env then (ResetCountError 400 StoreErrorMsg, d)
          else (ResetCountOk prev 0 (apiCreditsTotal u') (apiCreditsTotal u'), save env d uid u'))"

section \<open>Sequences of ledger operations\<close>

text \<open>
  One call of the ledger: \<open>consumeCredits\<close> as the server calls it (the cost looked up
  from the endpoint), a consume with the cost given (the \<open>try\<close> block at that cost),
  \<open>addCredits\<close> and \<open>resetCredits\<close>. A sequence runs them one after the other, each
  with its own environment.
\<close>

datatype ledger_op =
    ConsumeOp objectId string
  | ConsumeCostOp objectId string int
  | AddCreditsOp objectId int string
  | ResetUsedOp objectId

fun apply_op :: "store_env \<Rightarrow> db \<Rightarrow> ledger_op \<Rightarrow> db" where
  "apply_op env d (ConsumeOp uid path) = snd (consumeCredits env d uid path)"
| "apply_op env d (ConsumeCostOp uid path c) = snd (consumeWithCost env d uid path (Num c))"
| "apply_op env d (AddCreditsOp uid amt descr) = snd (addCredits env d uid amt descr)"
| "apply_op env d (ResetUsedOp uid) = snd (resetCredits env d uid)"

fun run_ops :: "db \<Rightarrow> (store_env \<times> ledger_op) list \<Rightarrow> db" where
  "run_ops d [] = d"
| "run_ops d ((env, opn) # rest) = run_ops (apply_op env d opn) rest"

fun positive_args :: "ledger_op \<Rightarrow> bool" where
  "positive_args (ConsumeOp uid path) = True"
| "positive_args (ConsumeCostOp uid path c) = (0 < c)"
| "positive_args (AddCreditsOp uid amt descr) = (0 < amt)"
| "positive_args (ResetUsedOp uid) = True"

definition credits_inv :: "user \<Rightarrow> bool" where
  "credits_inv u = (0 \<le> apiCreditsUsed u \<and> apiCreditsUsed u \<le> apiCreditsTotal u)"

definition at_defaults :: "user \<Rightarrow> bool" where
  "at_defaults u = (apiCreditsTotal u = 100 \<and> apiCreditsUsed u = 0)"

section \<open>Replaying the transaction log\<close>

text \<open>
  The replay of the spec's second invariant, following the spec's words: starting from the
  creation state \<open>(creditsTotal, creditsUsed) = (100, 0)\<close>, a Consume transaction
  (amount \<open>- cost\<close>) adds its cost to \<open>creditsUsed\<close>, a Refill adds its amount to
  \<open>creditsTotal\<close>, and an Adjustment gives its amount back to \<open>creditsUsed\<close>.
\<close>

definition replay_tx :: "int \<times> int \<Rightarrow> creditTransaction \<Rightarrow> int \<times> int" where
  "replay_tx s t =
     (case tx_type t of
        Consume \<Rightarrow> (fst s, snd s - amount t)
      | Refill \<Rightarrow> (fst s + amount t, snd s)
      | Adjustment \<Rightarrow> (fst s, snd s - amount t))"

definition account_log :: "db \<Rightarrow> objectId \<Rightarrow> creditTransaction list" where
  "account_log d uid = filter (\<lambda>t. tx_user t = uid) (transactions d)"

definition replay :: "creditTransaction list \<Rightarrow> int \<times> int" where
  "replay ts = foldl replay_tx (100, 0) ts"

definition db_inv :: "db \<Rightarrow> bool" where
  "db_inv d = list_all (\<lambda>(i, u). credits_inv u) (users d)"

section \<open>Sample documents\<close>

text \<open>
  A user as \<open>POST /api/users\<close> creates it (name, email, hashed password and API key
  from the request, the schema defaults \<open>apiCreditsUsed = 0\<close>, \<open>apiCreditsTotal = 100\<close>,
  \<open>isAdmin = false\<close>, both timestamps the time of creation); a store holding that user
  and no transaction; the same store with all 100 credits used; and an environment in
  which no store call rejects.
\<close>

definition sample_user :: user where
  "sample_user =
     \<lparr>name = ''Ann'', email = ''ann@example.org'', password = Some ''hashed-secret'',
      googleId = None, apiKey = Some ''7c9e6679-7425-40de-944b-e07fc1f90ae7'',
      apiCreditsUsed = 0, apiCreditsTotal = 100, isAdmin = False,
      user_createdAt = 500, user_updatedAt = 500\<rparr>"

definition sample_db :: db where
  "sample_db = \<lparr>users = [(1, sample_user)], transactions = []\<rparr>"

definition spent_db :: db where
  "spent_db = \<lparr>users = [(1, sample_user\<lparr>apiCreditsUsed := 100\<rparr>)], transactions = []\<rparr>"

definition no_faults :: store_env where
  "no_faults =
     \<lparr>findById_fails = False, save_fails = False, create_fails = False,
      find_fails = False, save_now = 999, now = 1000, tie_rank = (\<lambda>t. 0),
      single_batch = 101\<rparr>"


definition sample_tx :: "objectId \<Rightarrow> int \<Rightarrow> creditTransaction" where
  "sample_tx uid stamp =
     \<lparr>tx_user = uid, amount = - 1, tx_type = Consume,
      description = ''API request to /api/estimate-calories'',
      endpointPath = Some ''/api/estimate-calories'', balanceAfter = 0, createdAt = stamp\<rparr>"

definition history_db :: db where
  "history_db =
     \<lparr>users = [(1, sample_user\<lparr>apiCreditsUsed := 3\<rparr>), (2, sample_user\<lparr>apiCreditsUsed := 1\<rparr>)],
      transactions = [sample_tx 1 10, sample_tx 2 15, sample_tx 1 30, sample_tx 1 20]\<rparr>"

section \<open>Facts about the store and the cost lookup\<close>

lemma set_update_subset: "set (AList.update k v al) \<subseteq> insert (k, v) (set al)"
  by (induction al) auto

lemma modified_used: "c \<noteq> 0 \<Longrightarrow> u\<lparr>apiCreditsUsed := apiCreditsUsed u + c\<rparr> \<noteq> u"
proof
  assume c: "c \<noteq> 0" and eq: "u\<lparr>apiCreditsUsed := apiCreditsUsed u + c\<rparr> = u"
  from eq have "apiCreditsUsed (u\<lparr>apiCreditsUsed := apiCreditsUsed u + c\<rparr>) = apiCreditsUsed u"
    by simp
  with c show False by simp
qed

lemma modified_total: "a \<noteq> 0 \<Longrightarrow> u\<lparr>apiCreditsTotal := apiCreditsTotal u + a\<rparr> \<noteq> u"
proof
  assume a: "a \<noteq> 0" and eq: "u\<lparr>apiCreditsTotal := apiCreditsTotal u + a\<rparr> = u"
  from eq have "apiCreditsTotal (u\<lparr>apiCreditsTotal := apiCreditsTotal u + a\<rparr>) = apiCreditsTotal u"
    by simp
  with a show False by simp
qed



lemma save_modified:
  "findById d i = Some u0 \<Longrightarrow> u \<noteq> u0 \<Longrightarrow>
   save env d i u = d\<lparr>users := AList.update i (u\<lparr>user_updatedAt := save_now env\<rparr>) (users d)\<rparr>"
  by (auto simp: save_def)

lemma findById_save:
  "findById (save env d i u) j =
     (if j = i then Some (if findById d i = Some u then u else u\<lparr>user_updatedAt := save_now env\<rparr>)
      else findById d j)"
  by (simp add: findById_def save_def update_conv')


lemma findById_create: "findById (create d t) j = findById d j"
  by (simp add: findById_def create_def)

lemma findById_in_set: "findById d i = Some u \<Longrightarrow> (i, u) \<in> set (users d)"
  by (simp add: findById_def map_of_SomeD)

lemma cost_is_one: "getEndpointCreditCost p = Num c \<Longrightarrow> c = 1"
  by (auto simp: getEndpointCreditCost_def costMap_get_def costMap_def truthy_def
      split: option.splits if_splits)

lemma cost_default: "p \<notin> set object_prototype_keys \<Longrightarrow> getEndpointCreditCost p = Num 1"
  by (auto simp: getEndpointCreditCost_def costMap_get_def costMap_def truthy_def
      split: option.splits if_splits)

lemma cost_estimate_calories: "getEndpointCreditCost ''/api/estimate-calories'' = Num 1"
  by (simp add: getEndpointCreditCost_def costMap_get_def costMap_def truthy_def)

lemma sample_user_savable: "passes_validation sample_user"
  by (simp add: passes_validation_def sample_user_def)

section \<open>The credit invariant is kept by every ledger operation\<close>

lemma db_inv_lookup: "db_inv d \<Longrightarrow> findById d i = Some u \<Longrightarrow> credits_inv u"
  by (auto simp: db_inv_def list_all_iff dest: findById_in_set)

lemma db_inv_save: "db_inv d \<Longrightarrow> credits_inv u \<Longrightarrow> db_inv (save env d i u)"
  using set_update_subset [of i "u\<lparr>user_updatedAt := save_now env\<rparr>" "users d"]
  by (auto simp: db_inv_def list_all_iff save_def credits_inv_def)

lemma db_inv_create: "db_inv (create d t) = db_inv d"
  by (simp add: db_inv_def create_def)

lemma consumeWithCost_inv:
  assumes "db_inv d" and "0 < c"
  shows "db_inv (snd (consumeWithCost env d uid path (Num c)))"
proof (cases "findById d uid")
  case None
  then show ?thesis using assms by (simp add: consumeWithCost_def)
next
  case (Some u)
  have u: "credits_inv u" using assms(1) Some by (rule db_inv_lookup)
  have "apiCreditsUsed u + c \<le> apiCreditsTotal u \<Longrightarrow>
        credits_inv (u\<lparr>apiCreditsUsed := apiCreditsUsed u + c\<rparr>)"
    using u assms(2) by (simp add: credits_inv_def)
  then show ?thesis using assms(1) Some
    by (auto simp: consumeWithCost_def Let_def db_inv_save db_inv_create)
qed

lemma consumeWithCost_Builtin: "snd (consumeWithCost env d uid path (Builtin k)) = d"
  by (simp add: consumeWithCost_def split: option.splits)

lemma consumeCredits_inv:
  assumes "db_inv d"
  shows "db_inv (snd (consumeCredits env d uid path))"
proof (cases "getEndpointCreditCost path")
  case (Num c)
  then have "c = 1" by (rule cost_is_one)
  then show ?thesis using Num assms consumeWithCost_inv [of d 1 env uid path]
    by (simp add: consumeCredits_def)
next
  case (Builtin k)
  then show ?thesis using assms by (simp add: consumeCredits_def consumeWithCost_Builtin)
qed

lemma addCredits_inv:
  assumes "db_inv d" and "0 < amt"
  shows "db_inv (snd (addCredits env d uid amt descr))"
proof (cases "findById d uid")
  case None
  then show ?thesis using assms by (simp add: addCredits_def)
next
  case (Some u)
  have "credits_inv u" using assms(1) Some by (rule db_inv_lookup)
  then have "credits_inv (u\<lparr>apiCreditsTotal := apiCreditsTotal u + amt\<rparr>)"
    using assms(2) by (simp add: credits_inv_def)
  then show ?thesis using assms(1) Some
    by (auto simp: addCredits_def Let_def db_inv_save db_inv_create)
qed

lemma resetCredits_inv:
  assumes "db_inv d"
  shows "db_inv (snd (resetCredits env d uid))"
proof (cases "findById d uid")
  case None
  then show ?thesis using assms by (simp add: resetCredits_def)
next
  case (Some u)
  have "credits_inv u" using assms Some by (rule db_inv_lookup)
  then have "credits_inv (u\<lparr>apiCreditsUsed := 0\<rparr>)"
    by (simp add: credits_inv_def)
  then show ?thesis using assms Some
    by (auto simp: resetCredits_def Let_def db_inv_save db_inv_create)
qed

lemma apply_op_inv: "db_inv d \<Longrightarrow> positive_args opn \<Longrightarrow> db_inv (apply_op env d opn)"
  by (cases opn)
    (simp_all add: consumeCredits_inv consumeWithCost_inv addCredits_inv resetCredits_inv)

lemma run_ops_inv:
  "db_inv d \<Longrightarrow> list_all (\<lambda>(env, opn). positive_args opn) ops \<Longrightarrow> db_inv (run_ops d ops)"
proof (induction ops arbitrary: d)
  case Nil
  then show ?case by simp
next
  case (Cons a ops)
  obtain env opn where a: "a = (env, opn)" by (cases a)
  from Cons.prems have "db_inv (apply_op env d opn)" by (simp add: a apply_op_inv)
  with Cons.IH Cons.prems show ?case by (simp add: a)
qed

section \<open>Facts about the history query\<close>

lemma sort_createdAt_desc_sorted:
  "sorted_wrt (\<lambda>a b. createdAt b \<le> createdAt a) (sort_createdAt_desc rank ts)"
proof -
  have "sorted (map (\<lambda>t. - createdAt t) (sort_key (\<lambda>t. - createdAt t) (sort_key rank ts)))"
    by (rule sorted_sort_key)
  then show ?thesis by (simp add: sort_createdAt_desc_def sorted_map)
qed

lemma sort_createdAt_desc_mset: "mset (sort_createdAt_desc rank ts) = mset ts"
  by (simp add: sort_createdAt_desc_def)

text \<open>
  Two answers of the store to the same sort hold the same documents in descending
  \<open>createdAt\<close> order; when no two of the documents share a \<open>createdAt\<close>, that fixes the
  answer, whatever order the store gives to ties.
\<close>

lemma sort_createdAt_desc_unique:
  assumes "distinct (map createdAt ts)"
  shows "sort_createdAt_desc rank ts = sort_createdAt_desc rank' ts"
proof -
  let ?key = "\<lambda>t. - createdAt t"
  let ?a = "sort_createdAt_desc rank ts" and ?b = "sort_createdAt_desc rank' ts"
  have inj: "inj_on ?key (set ts)"
    using assms by (auto simp: inj_on_def distinct_map)
  have dist: "distinct (map ?key ts)"
    using assms inj by (simp add: distinct_map)
  have ma: "mset ?a = mset ts" and mb: "mset ?b = mset ts"
    by (simp_all add: sort_createdAt_desc_mset)
  have sa: "set ?a = set ts" and sb: "set ?b = set ts"
    using ma mb by (metis set_mset_mset)+
  have "mset (map ?key ?a) = mset (map ?key ts)" "mset (map ?key ?b) = mset (map ?key ts)"
    using ma mb by (metis mset_map)+
  then have da: "distinct (map ?key ?a)" and db: "distinct (map ?key ?b)"
    using dist by (metis mset_eq_imp_distinct_iff)+
  have "sorted (map ?key ?a)" and "sorted (map ?key ?b)"
    by (simp_all add: sort_createdAt_desc_def)
  moreover have "set (map ?key ?a) = set (map ?key ?b)"
    by (simp add: sa sb)
  ultimately have keys: "map ?key ?a = map ?key ?b"
    using da db by (metis sorted_distinct_set_unique)
  have "inj_on ?key (set ?a \<union> set ?b)"
    using inj by (simp add: sa sb)
  then have "(map ?key ?a = map ?key ?b) = (?a = ?b)"
    by (rule inj_on_map_eq_map)
  with keys show ?thesis by blast
qed

text \<open>
  What the history query does at a positive limit and at the default: the account's
  transactions, newest first, cut to the limit.
\<close>

lemma history_positive_limit:
  assumes "\<not> find_fails env" and "0 < l"
  shows "getTransactionHistory env d uid (Some l)
           = (HistoryOk (take (nat l) (sort_createdAt_desc (tie_rank env) (account_log d uid))), d)"
    and "mset (sort_createdAt_desc (tie_rank env) (account_log d uid)) = mset (account_log d uid)"
    and "sorted_wrt (\<lambda>a b. createdAt b \<le> createdAt a)
           (take (nat l) (sort_createdAt_desc (tie_rank env) (account_log d uid)))"
  using assms
  by (simp_all add: getTransactionHistory_def account_log_def cursor_limit_def
      sort_createdAt_desc_mset sort_createdAt_desc_sorted sorted_wrt_take)

lemma history_default_limit:
  assumes "\<not> find_fails env"
  shows "getTransactionHistory env d uid None
           = (HistoryOk (take 20 (sort_createdAt_desc (tie_rank env) (account_log d uid))), d)"
  using assms by (simp add: getTransactionHistory_def account_log_def cursor_limit_def)

text \<open>
  A repeated read: when no two transactions of the account share a \<open>createdAt\<close>, a second
  call with the same limit returns what the first returned, whatever the store decides
  about ties in either call.
\<close>

lemma history_repeatable:
  assumes "distinct (map createdAt (account_log d uid))"
    and "\<not> find_fails env" and "\<not> find_fails env'"
    and "single_batch env' = single_batch env"
  shows "getTransactionHistory env' (snd (getTransactionHistory env d uid lim)) uid lim
           = getTransactionHistory env d uid lim"
  using assms sort_createdAt_desc_unique [of "account_log d uid" "tie_rank env'" "tie_rank env"]
  by (simp add: getTransactionHistory_def account_log_def)

lemma history_route_negative_limit:
  "historyRouteLimit (Some (- 1)) = - 1
   \<and> historyRoute no_faults history_db 1 (Some (- 1)) = (HistoryOk [sample_tx 1 30], history_db)"
  by (simp add: historyRoute_def historyRouteLimit_def getTransactionHistory_def no_faults_def
      history_db_def sample_tx_def cursor_limit_def sort_createdAt_desc_def)

section \<open>Consume\<close>

text \<open>
  Claim C2. When the fresh lookup finds the account and its remaining credits
  (\<open>apiCreditsTotal - apiCreditsUsed\<close>) are strictly less than the positive cost, the
  consume fails with statusCode 429 (insufficient credits) and returns the store as it
  was: no counter is changed and no transaction is appended. This holds at every positive
  cost for the \<open>try\<close> block, and so for \<open>consumeCredits\<close> at the cost of its endpoint.
\<close>

theorem consume_insufficient:
  assumes "\<not> findById_fails env" and "findById d uid = Some u"
    and "0 < c" and "apiCreditsTotal u - apiCreditsUsed u < c"
  shows "consumeWithCost env d uid path (Num c)
           = (Failure 429 (InsufficientMsg c (apiCreditsTotal u - apiCreditsUsed u)), d)
       \<and> (getEndpointCreditCost path = Num c \<longrightarrow>
            consumeCredits env d uid path
              = (Failure 429 (InsufficientMsg c (apiCreditsTotal u - apiCreditsUsed u)), d))"
  using assms by (simp add: consumeWithCost_def consumeCredits_def)

theorem consume_insufficient_witness:
  "\<not> findById_fails no_faults
   \<and> findById spent_db 1 = Some (sample_user\<lparr>apiCreditsUsed := 100\<rparr>)
   \<and> (0::int) < 1
   \<and> apiCreditsTotal (sample_user\<lparr>apiCreditsUsed := 100\<rparr>)
       - apiCreditsUsed (sample_user\<lparr>apiCreditsUsed := 100\<rparr>) < 1
   \<and> getEndpointCreditCost ''/api/estimate-calories'' = Num 1
   \<and> consumeCredits no_faults spent_db 1 ''/api/estimate-calories''
       = (Failure 429 (InsufficientMsg 1 0), spent_db)
   \<and> transactions (snd (consumeCredits no_faults spent_db 1 ''/api/estimate-calories'')) = []"
  using consume_insufficient [of no_faults spent_db 1 "sample_user\<lparr>apiCreditsUsed := 100\<rparr>" 1
      "''/api/estimate-calories''"]
  by (simp add: no_faults_def spent_db_def sample_user_def findById_def cost_estimate_calories)

text \<open>
  Claim C3. When the account is found, its remaining credits are at least the positive
  cost, and the two store writes succeed, the consume returns the updated remaining and
  used values, the stored account has \<open>apiCreditsUsed\<close> increased by exactly the cost (and
  its \<open>updatedAt\<close> moved to the time of the save, nothing else changed), and exactly one
  transaction is appended, with amount \<open>- cost\<close>, type consume and \<open>balanceAfter\<close> the
  remaining credits after the update. On an account with total 100 and used 0, a consume
  of cost 1 returns remaining 99 and used 1, and the appended transaction has amount -1
  and balanceAfter 99.
\<close>

theorem consume_success:
  assumes "\<not> findById_fails env" and "\<not> save_fails env" and "\<not> create_fails env"
    and "findById d uid = Some u" and "0 < c"
    and "c \<le> apiCreditsTotal u - apiCreditsUsed u"
  shows "consumeWithCost env d uid path (Num c)
           = (ConsumeOk (apiCreditsTotal u - (apiCreditsUsed u + c)) (apiCreditsUsed u + c),
              \<lparr>users = AList.update uid
                 (u\<lparr>apiCreditsUsed := apiCreditsUsed u + c, user_updatedAt := save_now env\<rparr>)
                 (users d),
               transactions = transactions d @
                 [\<lparr>tx_user = uid, amount = - c, tx_type = Consume,
                   description = ''API request to '' @ path, endpointPath = Some path,
                   balanceAfter = apiCreditsTotal u - (apiCreditsUsed u + c),
                   createdAt = now env\<rparr>]\<rparr>)
       \<and> findById (snd (consumeWithCost env d uid path (Num c))) uid
           = Some (u\<lparr>apiCreditsUsed := apiCreditsUsed u + c, user_updatedAt := save_now env\<rparr>)
       \<and> (getEndpointCreditCost path = Num c \<longrightarrow>
            consumeCredits env d uid path = consumeWithCost env d uid path (Num c))
       \<and> (apiCreditsTotal u = 100 \<and> apiCreditsUsed u = 0 \<and> c = 1 \<longrightarrow>
            fst (consumeWithCost env d uid path (Num c)) = ConsumeOk 99 1
            \<and> amount (last (transactions (snd (consumeWithCost env d uid path (Num c))))) = - 1
            \<and> balanceAfter (last (transactions (snd (consumeWithCost env d uid path (Num c)))))
                = 99)"
proof -
  have modified: "u\<lparr>apiCreditsUsed := apiCreditsUsed u + c\<rparr> \<noteq> u"
    using assms(5) by (simp add: modified_used)
  have eq: "consumeWithCost env d uid path (Num c)
      = (ConsumeOk (apiCreditsTotal u - (apiCreditsUsed u + c)) (apiCreditsUsed u + c),
         create (save env d uid (u\<lparr>apiCreditsUsed := apiCreditsUsed u + c\<rparr>))
           \<lparr>tx_user = uid, amount = - c, tx_type = Consume,
            description = ''API request to '' @ path, endpointPath = Some path,
            balanceAfter = apiCreditsTotal u - (apiCreditsUsed u + c),
            createdAt = now env\<rparr>)"
    using assms by (simp add: consumeWithCost_def Let_def)
  have stored: "consumeWithCost env d uid path (Num c)
      = (ConsumeOk (apiCreditsTotal u - (apiCreditsUsed u + c)) (apiCreditsUsed u + c),
         \<lparr>users = AList.update uid
            (u\<lparr>apiCreditsUsed := apiCreditsUsed u + c, user_updatedAt := save_now env\<rparr>)
            (users d),
          transactions = transactions d @
            [\<lparr>tx_user = uid, amount = - c, tx_type = Consume,
              description = ''API request to '' @ path, endpointPath = Some path,
              balanceAfter = apiCreditsTotal u - (apiCreditsUsed u + c),
              createdAt = now env\<rparr>]\<rparr>)"
    using modified assms(4) by (simp add: eq save_modified create_def)
  have found: "findById (snd (consumeWithCost env d uid path (Num c))) uid
      = Some (u\<lparr>apiCreditsUsed := apiCreditsUsed u + c, user_updatedAt := save_now env\<rparr>)"
    using modified assms(4) by (simp add: eq findById_create findById_save)
  have looked_up: "getEndpointCreditCost path = Num c \<longrightarrow>
      consumeCredits env d uid path = consumeWithCost env d uid path (Num c)"
    by (simp add: consumeCredits_def)
  have scenario: "apiCreditsTotal u = 100 \<and> apiCreditsUsed u = 0 \<and> c = 1 \<longrightarrow>
      fst (consumeWithCost env d uid path (Num c)) = ConsumeOk 99 1
      \<and> amount (last (transactions (snd (consumeWithCost env d uid path (Num c))))) = - 1
      \<and> balanceAfter (last (transactions (snd (consumeWithCost env d uid path (Num c)))))
          = 99"
    unfolding stored by simp
  show ?thesis
    by (intro conjI stored found looked_up scenario)
qed

theorem consume_success_witness:
  "\<not> findById_fails no_faults \<and> \<not> save_fails no_faults \<and> \<not> create_fails no_faults
   \<and> findById sample_db 1 = Some sample_user
   \<and> passes_validation sample_user
   \<and> (0::int) < 1
   \<and> 1 \<le> apiCreditsTotal sample_user - apiCreditsUsed sample_user
   \<and> getEndpointCreditCost ''/api/estimate-calories'' = Num 1
   \<and> apiCreditsTotal sample_user = 100 \<and> apiCreditsUsed sample_user = 0
   \<and> consumeCredits no_faults sample_db 1 ''/api/estimate-calories''
       = (ConsumeOk 99 1,
          \<lparr>users = [(1, sample_user\<lparr>apiCreditsUsed := 1, user_updatedAt := 999\<rparr>)],
           transactions =
             [\<lparr>tx_user = 1, amount = - 1, tx_type = Consume,
               description = ''API request to /api/estimate-calories'',
               endpointPath = Some ''/api/estimate-calories'',
               balanceAfter = 99, createdAt = 1000\<rparr>]\<rparr>)"
  using consume_success [of no_faults sample_db 1 sample_user 1 "''/api/estimate-calories''"]
  by (simp add: no_faults_def sample_db_def sample_user_def findById_def cost_estimate_calories
      passes_validation_def)

section \<open>The credit invariant\<close>

text \<open>
  Claim C4. Starting from a store in which every account is in its creation state
  (\<open>apiCreditsTotal = 100\<close>, \<open>apiCreditsUsed = 0\<close>), after every sequence of consume,
  addCredits and resetCredits calls whose costs and amounts are positive, whichever store
  calls reject on the way, every account satisfies \<open>0 \<le> apiCreditsUsed\<close> and
  \<open>apiCreditsUsed \<le> apiCreditsTotal\<close>, that is, its remaining credits are not negative.
\<close>

theorem credits_invariant:
  assumes "list_all (\<lambda>(i, u). at_defaults u) (users d0)"
    and "list_all (\<lambda>(env, opn). positive_args opn) ops"
  shows "list_all (\<lambda>(i, u). 0 \<le> apiCreditsUsed u \<and> apiCreditsUsed u \<le> apiCreditsTotal u
                     \<and> 0 \<le> apiCreditsTotal u - apiCreditsUsed u)
           (users (run_ops d0 ops))"
proof -
  have "db_inv d0" using assms(1)
    by (auto simp: db_inv_def list_all_iff at_defaults_def credits_inv_def)
  then have "db_inv (run_ops d0 ops)" using assms(2) by (rule run_ops_inv)
  then show ?thesis by (auto simp: db_inv_def list_all_iff credits_inv_def)
qed

theorem credits_invariant_witness:
  "list_all (\<lambda>(i, u). at_defaults u) (users sample_db)
   \<and> list_all (\<lambda>(env, opn). positive_args opn)
       [(no_faults, ConsumeOp 1 ''/api/estimate-calories''),
        (no_faults, AddCreditsOp 1 50 ''top up''),
        (no_faults\<lparr>create_fails := True\<rparr>, ResetUsedOp 1),
        (no_faults, ConsumeCostOp 1 ''/bulk'' 30),
        (no_faults, ConsumeCostOp 1 ''/bulk'' 200)]
   \<and> list_all (\<lambda>(i, u). 0 \<le> apiCreditsUsed u \<and> apiCreditsUsed u \<le> apiCreditsTotal u
                     \<and> 0 \<le> apiCreditsTotal u - apiCreditsUsed u)
       (users (run_ops sample_db
          [(no_faults, ConsumeOp 1 ''/api/estimate-calories''),
           (no_faults, AddCreditsOp 1 50 ''top up''),
           (no_faults\<lparr>create_fails := True\<rparr>, ResetUsedOp 1),
           (no_faults, ConsumeCostOp 1 ''/bulk'' 30),
           (no_faults, ConsumeCostOp 1 ''/bulk'' 200)]))
   \<and> users (run_ops sample_db
          [(no_faults, ConsumeOp 1 ''/api/estimate-calories''),
           (no_faults, AddCreditsOp 1 50 ''top up''),
           (no_faults\<lparr>create_fails := True\<rparr>, ResetUsedOp 1),
           (no_faults, ConsumeCostOp 1 ''/bulk'' 30),
           (no_faults, ConsumeCostOp 1 ''/bulk'' 200)])
       = [(1, sample_user\<lparr>apiCreditsUsed := 30, apiCreditsTotal := 150,
                          user_updatedAt := 999\<rparr>)]"
  using credits_invariant [of sample_db
      "[(no_faults, ConsumeOp 1 ''/api/estimate-calories''),
        (no_faults, AddCreditsOp 1 50 ''top up''),
        (no_faults\<lparr>create_fails := True\<rparr>, ResetUsedOp 1),
        (no_faults, ConsumeCostOp 1 ''/bulk'' 30),
        (no_faults, ConsumeCostOp 1 ''/bulk'' 200)]"]
  by (simp add: sample_db_def sample_user_def at_defaults_def no_faults_def
      consumeCredits_def consumeWithCost_def cost_estimate_calories addCredits_def
      resetCredits_def MAX_CREDITS_def findById_def save_def create_def Let_def)

section \<open>Consume when the transaction append fails\<close>

text \<open>
  Claim C1, as the code has it. The claim asks for a rollback of the balance write (or a
  retry of the append) when the append fails. The service has neither: with the account
  found, the cost affordable and \<open>save\<close> succeeding, a rejected
  \<open>CreditTransaction.create\<close> leaves the account with \<open>apiCreditsUsed\<close> increased by the
  cost (and \<open>updatedAt\<close> at the time of the save) and the transaction log as it was, and
  the call reports the generic failure with statusCode 500, which differs from the 429
  of insufficient credits.
\<close>

theorem consume_append_failure:
  assumes "\<not> findById_fails env" and "\<not> save_fails env" and "create_fails env"
    and "findById d uid = Some u" and "0 < c"
    and "c \<le> apiCreditsTotal u - apiCreditsUsed u"
  shows "consumeWithCost env d uid path (Num c)
           = (Failure 500 ErrorProcessingMsg,
              \<lparr>users = AList.update uid
                 (u\<lparr>apiCreditsUsed := apiCreditsUsed u + c, user_updatedAt := save_now env\<rparr>)
                 (users d),
               transactions = transactions d\<rparr>)
       \<and> findById (snd (consumeWithCost env d uid path (Num c))) uid
           = Some (u\<lparr>apiCreditsUsed := apiCreditsUsed u + c, user_updatedAt := save_now env\<rparr>)
       \<and> statusCode (fst (consumeWithCost env d uid path (Num c))) \<noteq> 429
       \<and> (getEndpointCreditCost path = Num c \<longrightarrow>
            consumeCredits env d uid path = consumeWithCost env d uid path (Num c))"
proof -
  have modified: "u\<lparr>apiCreditsUsed := apiCreditsUsed u + c\<rparr> \<noteq> u"
    using assms(5) by (simp add: modified_used)
  have eq: "consumeWithCost env d uid path (Num c)
      = (Failure 500 ErrorProcessingMsg,
         save env d uid (u\<lparr>apiCreditsUsed := apiCreditsUsed u + c\<rparr>))"
    using assms by (simp add: consumeWithCost_def Let_def)
  have stored: "consumeWithCost env d uid path (Num c)
      = (Failure 500 ErrorProcessingMsg,
         \<lparr>users = AList.update uid
            (u\<lparr>apiCreditsUsed := apiCreditsUsed u + c, user_updatedAt := save_now env\<rparr>)
            (users d),
          transactions = transactions d\<rparr>)"
    using modified assms(4) by (simp add: eq save_modified)
  have found: "findById (snd (consumeWithCost env d uid path (Num c))) uid
      = Some (u\<lparr>apiCreditsUsed := apiCreditsUsed u + c, user_updatedAt := save_now env\<rparr>)"
    using modified assms(4) by (simp add: eq findById_save)
  have status: "statusCode (fst (consumeWithCost env d uid path (Num c))) \<noteq> 429"
    by (simp add: eq)
  have looked_up: "getEndpointCreditCost path = Num c \<longrightarrow>
      consumeCredits env d uid path = consumeWithCost env d uid path (Num c)"
    by (simp add: consumeCredits_def)
  show ?thesis
    by (intro conjI stored found status looked_up)
qed

theorem consume_append_failure_witness:
  "\<not> findById_fails (no_faults\<lparr>create_fails := True\<rparr>)
   \<and> \<not> save_fails (no_faults\<lparr>create_fails := True\<rparr>)
   \<and> create_fails (no_faults\<lparr>create_fails := True\<rparr>)
   \<and> findById sample_db 1 = Some sample_user
   \<and> passes_validation sample_user
   \<and> (0::int) < 1
   \<and> 1 \<le> apiCreditsTotal sample_user - apiCreditsUsed sample_user
   \<and> getEndpointCreditCost ''/api/estimate-calories'' = Num 1
   \<and> consumeCredits (no_faults\<lparr>create_fails := True\<rparr>) sample_db 1 ''/api/estimate-calories''
       = (Failure 500 ErrorProcessingMsg,
          \<lparr>users = [(1, sample_user\<lparr>apiCreditsUsed := 1, user_updatedAt := 999\<rparr>)],
           transactions = []\<rparr>)"
  using consume_append_failure [of "no_faults\<lparr>create_fails := True\<rparr>" sample_db 1 sample_user 1
      "''/api/estimate-calories''"]
  by (simp add: no_faults_def sample_db_def sample_user_def findById_def cost_estimate_calories
      passes_validation_def)

text \<open>
  Claim C1 as stated fails. The sample user passes the schema's validation, so its
  \<open>save\<close> goes through; a consume whose transaction append is then rejected returns a
  store that differs from the one it started from: one credit is used, nothing is
  logged.
\<close>

theorem consume_not_rolled_back_counterexample:
  "passes_validation sample_user
   \<and> passes_validation (sample_user\<lparr>apiCreditsUsed := 1\<rparr>)
   \<and> create_fails (no_faults\<lparr>create_fails := True\<rparr>)
   \<and> consumeCredits (no_faults\<lparr>create_fails := True\<rparr>) sample_db 1 ''/api/estimate-calories''
       = (Failure 500 ErrorProcessingMsg,
          \<lparr>users = [(1, sample_user\<lparr>apiCreditsUsed := 1, user_updatedAt := 999\<rparr>)],
           transactions = []\<rparr>)
   \<and> map_option apiCreditsUsed
       (findById (snd (consumeCredits (no_faults\<lparr>create_fails := True\<rparr>) sample_db 1
                         ''/api/estimate-calories'')) 1) = Some 1
   \<and> map_option apiCreditsUsed (findById sample_db 1) = Some 0
   \<and> snd (consumeCredits (no_faults\<lparr>create_fails := True\<rparr>) sample_db 1
            ''/api/estimate-calories'') \<noteq> sample_db"
  by (simp add: consumeCredits_def consumeWithCost_def cost_estimate_calories no_faults_def
      sample_db_def sample_user_def findById_def save_def Let_def passes_validation_def)

section \<open>Consume on a missing account\<close>

text \<open>
  Claim C10. When the fresh lookup returns nothing, \<open>consumeCredits\<close> reports the generic
  processing error with statusCode 500 (not 404, not "User not found") and returns the
  store as it was. The result is the same value that a rejected store call gives: a
  rejected lookup, or a rejected \<open>save\<close> or \<open>create\<close> on an account that could afford
  the cost.
\<close>

theorem consume_missing_account:
  assumes "findById d uid = None"
  shows "consumeCredits env d uid path = (Failure 500 ErrorProcessingMsg, d)
       \<and> statusCode (fst (consumeCredits env d uid path)) \<noteq> 404
       \<and> failure_message (fst (consumeCredits env d uid path)) \<noteq> UserNotFoundMsg
       \<and> (\<forall>env' d' uid' path' cost.
            findById_fails env' \<or>
            (\<exists>u c. findById d' uid' = Some u \<and> cost = Num c
                   \<and> c \<le> apiCreditsTotal u - apiCreditsUsed u
                   \<and> (save_fails env' \<or> create_fails env')) \<longrightarrow>
            fst (consumeWithCost env' d' uid' path' cost)
              = fst (consumeCredits env d uid path))"
  using assms by (auto simp: consumeCredits_def consumeWithCost_def Let_def)

theorem consume_missing_account_witness:
  "findById sample_db 2 = None
   \<and> consumeCredits no_faults sample_db 2 ''/api/estimate-calories''
       = (Failure 500 ErrorProcessingMsg, sample_db)
   \<and> findById sample_db 1 = Some sample_user
   \<and> 1 \<le> apiCreditsTotal sample_user - apiCreditsUsed sample_user
   \<and> save_fails (no_faults\<lparr>save_fails := True\<rparr>)
   \<and> fst (consumeWithCost (no_faults\<lparr>save_fails := True\<rparr>) sample_db 1
            ''/api/estimate-calories'' (Num 1))
       = fst (consumeCredits no_faults sample_db 2 ''/api/estimate-calories'')"
  using consume_missing_account [of sample_db 2 no_faults "''/api/estimate-calories''"]
  by (simp add: consumeCredits_def consumeWithCost_def no_faults_def sample_db_def
      sample_user_def findById_def Let_def)

section \<open>AddCredits\<close>

text \<open>
  Claim C6. With a positive amount and a lookup that does not reject, \<open>addCredits\<close>
  fails with statusCode 404 when the account does not exist; fails with statusCode 400
  and returns the store as it was when \<open>apiCreditsTotal + amount\<close> exceeds 1000 (so for
  950 on a total of 100); and otherwise, when both store writes succeed, adds the amount
  to \<open>apiCreditsTotal\<close> (the save moves \<open>updatedAt\<close>), appends one refill transaction with
  that positive amount, and returns the new total and the new remaining credits.
\<close>

theorem addCredits_spec:
  assumes "\<not> findById_fails env" and "0 < amt"
  shows "(findById d uid = None \<longrightarrow>
            addCredits env d uid amt descr = (Failure 404 UserNotFoundMsg, d))
       \<and> (\<forall>u. findById d uid = Some u \<and> apiCreditsTotal u + amt > 1000 \<longrightarrow>
            addCredits env d uid amt descr = (Failure 400 (LimitMsg 1000), d))
       \<and> (\<forall>u. findById d uid = Some u \<and> apiCreditsTotal u + amt \<le> 1000
              \<and> \<not> save_fails env \<and> \<not> create_fails env \<longrightarrow>
            addCredits env d uid amt descr
              = (AddOk (apiCreditsTotal u + amt) (apiCreditsTotal u + amt - apiCreditsUsed u),
                 \<lparr>users = AList.update uid
                    (u\<lparr>apiCreditsTotal := apiCreditsTotal u + amt, user_updatedAt := save_now env\<rparr>)
                    (users d),
                  transactions = transactions d @
                    [\<lparr>tx_user = uid, amount = amt, tx_type = Refill,
                      description = descr, endpointPath = None,
                      balanceAfter = apiCreditsTotal u + amt - apiCreditsUsed u,
                      createdAt = now env\<rparr>]\<rparr>)
            \<and> findById (snd (addCredits env d uid amt descr)) uid
                = Some (u\<lparr>apiCreditsTotal := apiCreditsTotal u + amt,
                          user_updatedAt := save_now env\<rparr>))
       \<and> (\<forall>u. findById d uid = Some u \<and> apiCreditsTotal u = 100 \<and> amt = 950 \<longrightarrow>
            addCredits env d uid amt descr = (Failure 400 (LimitMsg 1000), d))"
proof -
  have missing: "findById d uid = None \<longrightarrow>
      addCredits env d uid amt descr = (Failure 404 UserNotFoundMsg, d)"
    using assms by (simp add: addCredits_def)
  have over: "\<forall>u. findById d uid = Some u \<and> apiCreditsTotal u + amt > 1000 \<longrightarrow>
      addCredits env d uid amt descr = (Failure 400 (LimitMsg 1000), d)"
    using assms by (simp add: addCredits_def MAX_CREDITS_def)
  have scenario: "\<forall>u. findById d uid = Some u \<and> apiCreditsTotal u = 100 \<and> amt = 950 \<longrightarrow>
      addCredits env d uid amt descr = (Failure 400 (LimitMsg 1000), d)"
    using assms by (simp add: addCredits_def MAX_CREDITS_def)
  have added: "\<forall>u. findById d uid = Some u \<and> apiCreditsTotal u + amt \<le> 1000
         \<and> \<not> save_fails env \<and> \<not> create_fails env \<longrightarrow>
       addCredits env d uid amt descr
         = (AddOk (apiCreditsTotal u + amt) (apiCreditsTotal u + amt - apiCreditsUsed u),
            \<lparr>users = AList.update uid
               (u\<lparr>apiCreditsTotal := apiCreditsTotal u + amt, user_updatedAt := save_now env\<rparr>)
               (users d),
             transactions = transactions d @
               [\<lparr>tx_user = uid, amount = amt, tx_type = Refill,
                 description = descr, endpointPath = None,
                 balanceAfter = apiCreditsTotal u + amt - apiCreditsUsed u,
                 createdAt = now env\<rparr>]\<rparr>)
       \<and> findById (snd (addCredits env d uid amt descr)) uid
           = Some (u\<lparr>apiCreditsTotal := apiCreditsTotal u + amt,
                     user_updatedAt := save_now env\<rparr>)"
  proof (intro allI impI)
    fix u
    assume h: "findById d uid = Some u \<and> apiCreditsTotal u + amt \<le> 1000
         \<and> \<not> save_fails env \<and> \<not> create_fails env"
    have modified: "u\<lparr>apiCreditsTotal := apiCreditsTotal u + amt\<rparr> \<noteq> u"
      using assms(2) by (simp add: modified_total)
    have eq: "addCredits env d uid amt descr
        = (AddOk (apiCreditsTotal u + amt) (apiCreditsTotal u + amt - apiCreditsUsed u),
           create (save env d uid (u\<lparr>apiCreditsTotal := apiCreditsTotal u + amt\<rparr>))
             \<lparr>tx_user = uid, amount = amt, tx_type = Refill,
              description = descr, endpointPath = None,
              balanceAfter = apiCreditsTotal u + amt - apiCreditsUsed u,
              createdAt = now env\<rparr>)"
      using assms h by (simp add: addCredits_def MAX_CREDITS_def Let_def)
    show "addCredits env d uid amt descr
         = (AddOk (apiCreditsTotal u + amt) (apiCreditsTotal u + amt - apiCreditsUsed u),
            \<lparr>users = AList.update uid
               (u\<lparr>apiCreditsTotal := apiCreditsTotal u + amt, user_updatedAt := save_now env\<rparr>)
               (users d),
             transactions = transactions d @
               [\<lparr>tx_user = uid, amount = amt, tx_type = Refill,
                 description = descr, endpointPath = None,
                 balanceAfter = apiCreditsTotal u + amt - apiCreditsUsed u,
                 createdAt = now env\<rparr>]\<rparr>)
       \<and> findById (snd (addCredits env d uid amt descr)) uid
           = Some (u\<lparr>apiCreditsTotal := apiCreditsTotal u + amt,
                     user_updatedAt := save_now env\<rparr>)"
      using modified h by (simp add: eq save_modified create_def findById_def update_conv')
  qed
  show ?thesis
    by (intro conjI missing over added scenario)
qed

theorem addCredits_spec_witness:
  "\<not> findById_fails no_faults \<and> \<not> save_fails no_faults \<and> \<not> create_fails no_faults
   \<and> (0::int) < 950 \<and> (0::int) < 50
   \<and> findById sample_db 2 = None
   \<and> addCredits no_faults sample_db 2 950 ''grant'' = (Failure 404 UserNotFoundMsg, sample_db)
   \<and> findById sample_db 1 = Some sample_user
   \<and> passes_validation sample_user
   \<and> apiCreditsTotal sample_user = 100
   \<and> apiCreditsTotal sample_user + 950 > 1000
   \<and> addCredits no_faults sample_db 1 950 ''grant'' = (Failure 400 (LimitMsg 1000), sample_db)
   \<and> apiCreditsTotal sample_user + 50 \<le> 1000
   \<and> addCredits no_faults sample_db 1 50 ''grant''
       = (AddOk 150 150,
          \<lparr>users = [(1, sample_user\<lparr>apiCreditsTotal := 150, user_updatedAt := 999\<rparr>)],
           transactions =
             [\<lparr>tx_user = 1, amount = 50, tx_type = Refill, description = ''grant'',
               endpointPath = None, balanceAfter = 150, createdAt = 1000\<rparr>]\<rparr>)"
  using addCredits_spec [of no_faults 950 sample_db 2 "''grant''"]
    addCredits_spec [of no_faults 950 sample_db 1 "''grant''"]
    addCredits_spec [of no_faults 50 sample_db 1 "''grant''"]
  by (simp add: no_faults_def sample_db_def sample_user_def findById_def passes_validation_def)

section \<open>ResetUsed\<close>




section \<open>GetHistory\<close>


section \<open>CostOf\<close>

text \<open>
  Claim C9 at the identifier \<open>constructor\<close>, which is not a key of the cost table: the
  lookup finds the member every object inherits under that name, which is truthy, so
  \<open>getEndpointCreditCost\<close> returns that member and not the default cost 1.
\<close>

theorem cost_lookup_inherited_member:
  "getEndpointCreditCost ''constructor'' = Builtin ''constructor''
   \<and> getEndpointCreditCost ''constructor'' \<noteq> Num 1
   \<and> map_of costMap ''constructor'' = None"
  by (simp add: getEndpointCreditCost_def costMap_get_def costMap_def truthy_def
      object_prototype_keys_def)

section \<open>Replay of the transaction log\<close>

text \<open>
  Claim C5 on the sample store, whose user passes the schema's validation: after one
  consume and a reset through \<open>POST /api/users/:id/reset-count\<close>, the account is back
  at total 100 and used 0, but the route appended no transaction: the replay of the
  account's log gives used 1, and 100 plus the sum of the logged amounts is 99, not the
  remaining 100. The same reset through \<open>resetCredits\<close> appends its adjustment, and the
  replay gives used 0.
\<close>

theorem reset_count_skips_log:
  "passes_validation sample_user
   \<and> findById (snd (resetCountRoute no_faults
       (snd (consumeCredits no_faults sample_db 1 ''/api/estimate-calories'')) 1)) 1
     = Some (sample_user\<lparr>user_updatedAt := 999\<rparr>)
   \<and> fst (resetCountRoute no_faults
       (snd (consumeCredits no_faults sample_db 1 ''/api/estimate-calories'')) 1)
     = ResetCountOk 1 0 100 100
   \<and> replay (account_log (snd (resetCountRoute no_faults
       (snd (consumeCredits no_faults sample_db 1 ''/api/estimate-calories'')) 1)) 1)
     = (100, 1)
   \<and> 100 + sum_list (map amount (account_log (snd (resetCountRoute no_faults
       (snd (consumeCredits no_faults sample_db 1 ''/api/estimate-calories'')) 1)) 1))
     = 99
   \<and> (apiCreditsTotal (sample_user\<lparr>user_updatedAt := 999\<rparr>),
       apiCreditsUsed (sample_user\<lparr>user_updatedAt := 999\<rparr>)) = (100, 0)
   \<and> replay (account_log (snd (resetCredits no_faults
       (snd (consumeCredits no_faults sample_db 1 ''/api/estimate-calories'')) 1)) 1)
     = (100, 0)"
  by (simp add: consumeCredits_def consumeWithCost_def cost_estimate_calories resetCountRoute_def
      resetCredits_def no_faults_def sample_db_def sample_user_def findById_def save_def
      create_def account_log_def replay_def replay_tx_def Let_def passes_validation_def)

end
